theory Spec2Isabelle
  imports Complex_Main "HOL-Library.Log_Nat"
begin

section \<open>Data model of \<^verbatim>\<open>services/postsService.ts\<close>\<close>

text \<open>
  The interfaces \<^verbatim>\<open>Post\<close> and \<^verbatim>\<open>Comment\<close>. A field declared with \<^verbatim>\<open>?\<close> is an
  \<open>option\<close>: \<open>None\<close> stands for a missing key, \<^verbatim>\<open>undefined\<close> and \<^verbatim>\<open>null\<close> alike, which
  the reducer never tells apart (it reads such fields through \<^verbatim>\<open>|| 0\<close> only).
  The fields carry a prefix (\<open>p_\<close>, \<open>c_\<close>) where the source's name is shared by two
  interfaces or is a constant of HOL (\<open>id\<close>). A JavaScript \<^verbatim>\<open>number\<close> that holds a
  count is an \<open>int\<close>: the model covers integer counts. The source computes on IEEE
  doubles, which hold every integer of magnitude up to \<open>2 ^ 53\<close>; a step of one on a
  count of smaller magnitude is exact.
\<close>

record Post =
  p_id :: string
  p_user_id :: string
  p_title :: "string option"
  p_content :: "string option"
  p_image_url :: "string option"
  p_category :: string
  p_created_at :: string
  p_updated_at :: string
  like_count :: "int option"
  comment_count :: "int option"
  p_user_email :: "string option"
  p_user_name :: "string option"
  is_liked :: "bool option"

record Comment =
  c_id :: string
  c_post_id :: string
  c_user_id :: string
  c_content :: string
  c_created_at :: string
  c_updated_at :: string
  c_user_email :: "string option"
  c_user_name :: "string option"

text \<open>
  \<^verbatim>\<open>Partial<Post>\<close>, the payload of \<^verbatim>\<open>UPDATE_POST\<close>: every key may be missing (\<open>None\<close>).
  A key of an optional field that is present may still hold \<^verbatim>\<open>undefined\<close>/\<^verbatim>\<open>null\<close>
  (\<open>Some None\<close>), and the spread then overwrites the field with it.
\<close>

record PostUpdates =
  u_id :: "string option"
  u_user_id :: "string option"
  u_title :: "string option option"
  u_content :: "string option option"
  u_image_url :: "string option option"
  u_category :: "string option"
  u_created_at :: "string option"
  u_updated_at :: "string option"
  u_like_count :: "int option option"
  u_comment_count :: "int option option"
  u_user_email :: "string option option"
  u_user_name :: "string option option"
  u_is_liked :: "bool option option"

section \<open>The reducer of \<^verbatim>\<open>context/postsContext.tsx\<close>\<close>

record PostsState =
  posts :: "Post list"
  userPosts :: "Post list"
  currentPost :: "Post option"
  comments :: "Comment list"
  loading :: bool
  error :: "string option"
  refreshing :: bool

datatype PostsAction =
    SET_LOADING bool
  | SET_REFRESHING bool
  | SET_ERROR "string option"
  | SET_POSTS "Post list"
  | SET_USER_POSTS "Post list"
  | SET_CURRENT_POST "Post option"
  | SET_COMMENTS "Comment list"
  | ADD_POST Post
  | UPDATE_POST string PostUpdates
  | DELETE_POST string
  | TOGGLE_LIKE string bool int
  | ADD_COMMENT Comment
  | UPDATE_COMMENT string string
  | DELETE_COMMENT string
  | CLEAR_ERROR
  | CLEAR_CURRENT_POST

definition initialState :: PostsState where
  "initialState =
     \<lparr>posts = [], userPosts = [], currentPost = None, comments = [],
      loading = False, error = None, refreshing = False\<rparr>"

text \<open>\<^verbatim>\<open>n || 0\<close> on an optional count: a missing count reads as 0 (and 0 as itself).\<close>

definition or0 :: "int option \<Rightarrow> int" where
  "or0 n = (case n of None \<Rightarrow> 0 | Some k \<Rightarrow> k)"

text \<open>One key of the spread \<^verbatim>\<open>{ ...post, ...updates }\<close>: a present key wins.\<close>

definition spread :: "'a option \<Rightarrow> 'a \<Rightarrow> 'a" where
  "spread u old = (case u of None \<Rightarrow> old | Some v \<Rightarrow> v)"

definition merge_post :: "Post \<Rightarrow> PostUpdates \<Rightarrow> Post" where
  "merge_post post u =
     \<lparr>p_id = spread (u_id u) (p_id post),
      p_user_id = spread (u_user_id u) (p_user_id post),
      p_title = spread (u_title u) (p_title post),
      p_content = spread (u_content u) (p_content post),
      p_image_url = spread (u_image_url u) (p_image_url post),
      p_category = spread (u_category u) (p_category post),
      p_created_at = spread (u_created_at u) (p_created_at post),
      p_updated_at = spread (u_updated_at u) (p_updated_at post),
      like_count = spread (u_like_count u) (like_count post),
      comment_count = spread (u_comment_count u) (comment_count post),
      p_user_email = spread (u_user_email u) (p_user_email post),
      p_user_name = spread (u_user_name u) (p_user_name post),
      is_liked = spread (u_is_liked u) (is_liked post)\<rparr>"

text \<open>The per-post functions that the cases of the reducer map over the feeds and apply
  to the current-post slot (\<^verbatim>\<open>state.currentPost?.id === ...\<close> is false on \<^verbatim>\<open>null\<close>).\<close>

definition updatePost1 :: "string \<Rightarrow> PostUpdates \<Rightarrow> Post \<Rightarrow> Post" where
  "updatePost1 postId updates post =
     (if p_id post = postId then merge_post post updates else post)"

definition updatePosts :: "string \<Rightarrow> PostUpdates \<Rightarrow> Post list \<Rightarrow> Post list" where
  "updatePosts postId updates ps = map (updatePost1 postId updates) ps"

text \<open>
  The sum \<^verbatim>\<open>(post.like_count || 0) + action.payload.likeDelta\<close> of two numbers is the
  double nearest to the exact sum. For integers the exact sum is kept while its magnitude
  is at most \<open>2 ^ 53\<close>; beyond, doubles are spaced by a power of two and the sum is
  rounded to the nearest of them, a tie going to the one with the even significand (sums
  that overflow the doubles, of 1024 bits or more, are outside the model).
\<close>

definition round53 :: "int \<Rightarrow> int" where
  "round53 r =
     (if \<bar>r\<bar> \<le> 2 ^ 53 then r
      else (let q = 2 ^ nat (bitlen \<bar>r\<bar> - 53);
                lo = \<bar>r\<bar> div q;
                rest = \<bar>r\<bar> mod q;
                m = (if q < 2 * rest \<or> (2 * rest = q \<and> odd lo) then lo + 1 else lo)
            in sgn r * (m * q)))"

definition js_add :: "int \<Rightarrow> int \<Rightarrow> int" where
  "js_add a b = round53 (a + b)"

definition toggleLike1 :: "string \<Rightarrow> bool \<Rightarrow> int \<Rightarrow> Post \<Rightarrow> Post" where
  "toggleLike1 postId isLiked likeDelta post =
     (if p_id post = postId
      then post\<lparr>is_liked := Some isLiked,
                like_count := Some (js_add (or0 (like_count post)) likeDelta)\<rparr>
      else post)"

definition toggleLikePosts :: "string \<Rightarrow> bool \<Rightarrow> int \<Rightarrow> Post list \<Rightarrow> Post list" where
  "toggleLikePosts postId isLiked likeDelta ps = map (toggleLike1 postId isLiked likeDelta) ps"

definition incrementCommentCount1 :: "Comment \<Rightarrow> Post \<Rightarrow> Post" where
  "incrementCommentCount1 c post =
     (if p_id post = c_post_id c
      then post\<lparr>comment_count := Some (or0 (comment_count post) + 1)\<rparr>
      else post)"

definition incrementCommentCount :: "Comment \<Rightarrow> Post list \<Rightarrow> Post list" where
  "incrementCommentCount c ps = map (incrementCommentCount1 c) ps"

text \<open>\<^verbatim>\<open>state.comments.find(c => c.id === action.payload)\<close>, then the floored decrement
  \<^verbatim>\<open>Math.max((post.comment_count || 0) - 1, 0)\<close> on the posts of the found comment.\<close>

definition decrementCommentCount1 :: "Comment list \<Rightarrow> string \<Rightarrow> Post \<Rightarrow> Post" where
  "decrementCommentCount1 cs commentId post =
     (case find (\<lambda>c. c_id c = commentId) cs of
        None \<Rightarrow> post
      | Some deletedComment \<Rightarrow>
          if p_id post = c_post_id deletedComment
          then post\<lparr>comment_count := Some (max (or0 (comment_count post) - 1) 0)\<rparr>
          else post)"

definition decrementCommentCount :: "Comment list \<Rightarrow> string \<Rightarrow> Post list \<Rightarrow> Post list" where
  "decrementCommentCount cs commentId ps = map (decrementCommentCount1 cs commentId) ps"

fun postsReducer :: "PostsState \<Rightarrow> PostsAction \<Rightarrow> PostsState" where
  "postsReducer state (SET_LOADING b) = state\<lparr>loading := b\<rparr>"
| "postsReducer state (SET_REFRESHING b) = state\<lparr>refreshing := b\<rparr>"
| "postsReducer state (SET_ERROR e) = state\<lparr>error := e, loading := False, refreshing := False\<rparr>"
| "postsReducer state (SET_POSTS ps) = state\<lparr>posts := ps, loading := False, refreshing := False\<rparr>"
| "postsReducer state (SET_USER_POSTS ps) =
     state\<lparr>userPosts := ps, loading := False, refreshing := False\<rparr>"
| "postsReducer state (SET_CURRENT_POST p) = state\<lparr>currentPost := p, loading := False\<rparr>"
| "postsReducer state (SET_COMMENTS cs) = state\<lparr>comments := cs, loading := False\<rparr>"
| "postsReducer state (ADD_POST p) =
     state\<lparr>posts := p # posts state, userPosts := p # userPosts state, loading := False\<rparr>"
| "postsReducer state (UPDATE_POST postId updates) =
     state\<lparr>posts := updatePosts postId updates (posts state),
           userPosts := updatePosts postId updates (userPosts state),
           currentPost := map_option (updatePost1 postId updates) (currentPost state),
           loading := False\<rparr>"
| "postsReducer state (DELETE_POST postId) =
     state\<lparr>posts := filter (\<lambda>post. p_id post \<noteq> postId) (posts state),
           userPosts := filter (\<lambda>post. p_id post \<noteq> postId) (userPosts state),
           currentPost := (case currentPost state of
                             None \<Rightarrow> None
                           | Some cp \<Rightarrow> if p_id cp = postId then None else Some cp),
           loading := False\<rparr>"
| "postsReducer state (TOGGLE_LIKE postId isLiked likeDelta) =
     state\<lparr>posts := toggleLikePosts postId isLiked likeDelta (posts state),
           userPosts := toggleLikePosts postId isLiked likeDelta (userPosts state),
           currentPost := map_option (toggleLike1 postId isLiked likeDelta) (currentPost state)\<rparr>"
| "postsReducer state (ADD_COMMENT c) =
     state\<lparr>posts := incrementCommentCount c (posts state),
           userPosts := incrementCommentCount c (userPosts state),
           currentPost := map_option (incrementCommentCount1 c) (currentPost state),
           comments := comments state @ [c]\<rparr>"
| "postsReducer state (UPDATE_COMMENT commentId content) =
     state\<lparr>comments := map (\<lambda>comment. if c_id comment = commentId
                                      then comment\<lparr>c_content := content\<rparr> else comment)
                         (comments state)\<rparr>"
| "postsReducer state (DELETE_COMMENT commentId) =
     state\<lparr>posts := decrementCommentCount (comments state) commentId (posts state),
           userPosts := decrementCommentCount (comments state) commentId (userPosts state),
           currentPost := map_option (decrementCommentCount1 (comments state) commentId)
                            (currentPost state),
           comments := filter (\<lambda>comment. c_id comment \<noteq> commentId) (comments state)\<rparr>"
| "postsReducer state CLEAR_ERROR = state\<lparr>error := None\<rparr>"
| "postsReducer state CLEAR_CURRENT_POST = state\<lparr>currentPost := None, comments := []\<rparr>"

subsection \<open>Views of a snapshot and runs of the reducer\<close>

text \<open>The current-post slot as a collection of at most one post, and the posts of the
  three collections (global feed, user feed, current-post slot) in one list.\<close>

definition cur_list :: "PostsState \<Rightarrow> Post list" where
  "cur_list s = (case currentPost s of None \<Rightarrow> [] | Some p \<Rightarrow> [p])"

definition all_posts :: "PostsState \<Rightarrow> Post list" where
  "all_posts s = posts s @ userPosts s @ cur_list s"

text \<open>Dispatching a sequence of actions, first to last.\<close>

definition run :: "PostsState \<Rightarrow> PostsAction list \<Rightarrow> PostsState" where
  "run s as = foldl postsReducer s as"




text \<open>The four transitions of the consistency invariant, with an \<^verbatim>\<open>UPDATE_POST\<close> whose
  payload leaves the identifier of the post alone (no \<^verbatim>\<open>id\<close> key, or the same id).\<close>

definition sync_action :: "PostsAction \<Rightarrow> bool" where
  "sync_action a =
     (case a of
        UPDATE_POST postId updates \<Rightarrow> u_id updates = None \<or> u_id updates = Some postId
      | TOGGLE_LIKE postId isLiked likeDelta \<Rightarrow> True
      | ADD_COMMENT c \<Rightarrow> True
      | DELETE_COMMENT commentId \<Rightarrow> True
      | _ \<Rightarrow> False)"

text \<open>What such a transition does to one post, wherever the post is held.\<close>

definition post_step :: "PostsState \<Rightarrow> PostsAction \<Rightarrow> Post \<Rightarrow> Post" where
  "post_step s a =
     (case a of
        UPDATE_POST postId updates \<Rightarrow> updatePost1 postId updates
      | TOGGLE_LIKE postId isLiked likeDelta \<Rightarrow> toggleLike1 postId isLiked likeDelta
      | ADD_COMMENT c \<Rightarrow> incrementCommentCount1 c
      | DELETE_COMMENT commentId \<Rightarrow> decrementCommentCount1 (comments s) commentId
      | _ \<Rightarrow> (\<lambda>p. p))"





text \<open>The comment count of a post as the reducer reads it, and a snapshot none of whose
  posts has a negative one.\<close>

definition count_of :: "Post \<Rightarrow> int" where
  "count_of p = or0 (comment_count p)"

definition counts_nonneg :: "PostsState \<Rightarrow> bool" where
  "counts_nonneg s = list_all (\<lambda>p. 0 \<le> count_of p) (all_posts s)"

text \<open>Dispatching \<^verbatim>\<open>DELETE_COMMENT\<close> for a list of identifiers, in any order and with
  any repetition.\<close>

definition deleteAll :: "PostsState \<Rightarrow> string list \<Rightarrow> PostsState" where
  "deleteAll s ids = run s (map DELETE_COMMENT ids)"

subsection \<open>Sample data\<close>

definition demo_post :: "string \<Rightarrow> int option \<Rightarrow> int option \<Rightarrow> Post" where
  "demo_post i likes cmts =
     \<lparr>p_id = i, p_user_id = ''u1'', p_title = None, p_content = Some ''Planted 3 trees today'',
      p_image_url = None, p_category = ''Tree Planting'', p_created_at = ''2025-06-01'',
      p_updated_at = ''2025-06-01'', like_count = likes, comment_count = cmts,
      p_user_email = None, p_user_name = None, is_liked = Some False\<rparr>"

definition demo_comment :: "string \<Rightarrow> string \<Rightarrow> Comment" where
  "demo_comment i postId =
     \<lparr>c_id = i, c_post_id = postId, c_user_id = ''u2'', c_content = ''Well done'',
      c_created_at = ''2025-06-02'', c_updated_at = ''2025-06-02'',
      c_user_email = None, c_user_name = None\<rparr>"

definition demo_state ::
  "Post list \<Rightarrow> Post list \<Rightarrow> Post option \<Rightarrow> Comment list \<Rightarrow> PostsState" where
  "demo_state ps ups cp cs =
     \<lparr>posts = ps, userPosts = ups, currentPost = cp, comments = cs,
      loading = False, error = None, refreshing = False\<rparr>"



text \<open>The currently viewed post is deleted while its thread is loaded.\<close>

definition stale_state :: PostsState where
  "stale_state =
     run initialState
       [SET_CURRENT_POST (Some (demo_post ''A'' (Some 0) (Some 1))),
        SET_COMMENTS [demo_comment ''c1'' ''A''],
        DELETE_POST ''A'']"

section \<open>The gateway of \<^verbatim>\<open>services/postsService.ts\<close>\<close>

text \<open>
  The remote store and the authentication service are collaborators outside the
  repository, and \<^verbatim>\<open>imageUploadService.uploadImage\<close> reports what the file system and
  the object storage did (\<^verbatim>\<open>success: false\<close> with the message of whatever failed).
  What each awaited call gives back is a parameter of the model: the promise rejects (the
  \<^verbatim>\<open>catch\<close> of the method receives the value thrown) or resolves with the reply.
  A value thrown is a truthy one, kept by the \<^verbatim>\<open>message\<close> it carries (empty when it has
  none), or a falsy one (\<^verbatim>\<open>''\<close>, \<^verbatim>\<open>0\<close>, \<^verbatim>\<open>null\<close>, \<^verbatim>\<open>undefined\<close>).
\<close>

datatype thrown = Exception string | Falsy_Value

datatype 'a reply = Rejects thrown | Resolves 'a

text \<open>The error object of the store client (\<^verbatim>\<open>code\<close>, \<^verbatim>\<open>message\<close>), and the \<^verbatim>\<open>error: any\<close>
  of a gateway result: a string literal of the gateway, an error object of the store, or a
  value caught.\<close>

record StoreError =
  e_code :: string
  e_message :: string

datatype ServiceError = Message string | Store StoreError | Thrown thrown

text \<open>Truthiness of an optional string, \<^verbatim>\<open>s || null\<close> and \<^verbatim>\<open>s || d\<close>: a missing and
  an empty string are falsy.\<close>

definition truthy :: "string option \<Rightarrow> bool" where
  "truthy s = (case s of None \<Rightarrow> False | Some t \<Rightarrow> t \<noteq> [])"

definition or_null :: "string option \<Rightarrow> string option" where
  "or_null s = (if truthy s then s else None)"

definition str_or :: "string option \<Rightarrow> string \<Rightarrow> string" where
  "str_or s d = (case s of None \<Rightarrow> d | Some t \<Rightarrow> if t = [] then d else t)"

record ImagePickerAsset =
  a_uri :: string
  a_width :: int
  a_height :: int
  a_fileSize :: "int option"
  a_type :: "string option"

record ImageUploadResult =
  up_success :: bool
  up_url :: "string option"
  up_error :: "string option"

record CreatePostData =
  d_title :: "string option"
  d_content :: "string option"
  d_category :: "string option"
  d_image :: "ImagePickerAsset option"

text \<open>The object handed to \<^verbatim>\<open>supabase.from("posts").insert\<close>, which is the row the
  table gains when the store accepts it.\<close>

record PostInsert =
  i_user_id :: string
  i_title :: "string option"
  i_content :: "string option"
  i_image_url :: "string option"
  i_category :: string

text \<open>The replies of the collaborators during one call of the gateway:
  \<^verbatim>\<open>auth.getUser\<close> (the identifier of the user, or \<^verbatim>\<open>null\<close>),
  \<^verbatim>\<open>imageUploadService.uploadImage\<close>, the insert into \<^verbatim>\<open>posts\<close> (\<^verbatim>\<open>data.id\<close>, \<^verbatim>\<open>error\<close>), the
  select from \<^verbatim>\<open>posts_with_stats\<close>, and on \<^verbatim>\<open>likes\<close> the select of the existing row
  (\<^verbatim>\<open>data.id\<close>, \<^verbatim>\<open>error\<close>), the delete and the insert (\<^verbatim>\<open>error\<close>).\<close>

record Backend =
  getUser :: "string option reply"
  uploadImage :: "ImageUploadResult reply"
  insertPost :: "(string option \<times> StoreError option) reply"
  selectPost :: "(Post option \<times> StoreError option) reply"
  selectLike :: "(string option \<times> StoreError option) reply"
  deleteLike :: "StoreError option reply"
  insertLike :: "StoreError option reply"

record PostResult =
  r_data :: "Post option"
  r_error :: "ServiceError option"

record LikeResult =
  t_isLiked :: bool
  t_error :: "ServiceError option"

definition uploadPostImage ::
  "ImageUploadResult reply \<Rightarrow> ImagePickerAsset \<Rightarrow> string \<Rightarrow> string option" where
  "uploadPostImage upload img userId =
     (case upload of
        Rejects e \<Rightarrow> None
      | Resolves result \<Rightarrow>
          if up_success result \<and> truthy (up_url result) then up_url result else None)"

text \<open>\<^verbatim>\<open>createPost\<close>, with the \<^verbatim>\<open>posts\<close> table of the store passed through: the table
  gains the row when the insert is sent and the store answers without an error.\<close>

definition createPost ::
  "Backend \<Rightarrow> CreatePostData \<Rightarrow> PostInsert list \<Rightarrow> PostResult \<times> PostInsert list" where
  "createPost b postData table =
     (case getUser b of
        Rejects e \<Rightarrow> (\<lparr>r_data = None, r_error = Some (Thrown e)\<rparr>, table)
      | Resolves None \<Rightarrow>
          (\<lparr>r_data = None, r_error = Some (Message ''User not authenticated'')\<rparr>, table)
      | Resolves (Some userId) \<Rightarrow>
          (let imageUrl = (case d_image postData of
                             None \<Rightarrow> None
                           | Some img \<Rightarrow> uploadPostImage (uploadImage b) img userId)
           in if \<not> truthy (d_content postData) \<and> \<not> truthy imageUrl
              then (\<lparr>r_data = None,
                     r_error = Some (Message ''Post must have either content or an image'')\<rparr>,
                    table)
              else
                (let row = \<lparr>i_user_id = userId,
                            i_title = or_null (d_title postData),
                            i_content = or_null (d_content postData),
                            i_image_url = imageUrl,
                            i_category = str_or (d_category postData) ''General''\<rparr>
                 in case insertPost b of
                      Rejects e \<Rightarrow> (\<lparr>r_data = None, r_error = Some (Thrown e)\<rparr>, table)
                    | Resolves (insertData, insertError) \<Rightarrow>
                        (let table' = (if insertError = None then table @ [row] else table)
                         in if insertError \<noteq> None \<or> insertData = None
                            then (\<lparr>r_data = None, r_error = map_option Store insertError\<rparr>,
                                  table')
                            else
                              (case selectPost b of
                                 Rejects e \<Rightarrow>
                                   (\<lparr>r_data = None, r_error = Some (Thrown e)\<rparr>, table')
                               | Resolves (data, err) \<Rightarrow>
                                   if err \<noteq> None
                                   then (\<lparr>r_data = None, r_error = map_option Store err\<rparr>,
                                         table')
                                   else (\<lparr>r_data = data, r_error = None\<rparr>, table'))))))"

definition toggleLike :: "Backend \<Rightarrow> string \<Rightarrow> LikeResult" where
  "toggleLike b postId =
     (case getUser b of
        Rejects e \<Rightarrow> \<lparr>t_isLiked = False, t_error = Some (Thrown e)\<rparr>
      | Resolves None \<Rightarrow>
          \<lparr>t_isLiked = False, t_error = Some (Message ''User not authenticated'')\<rparr>
      | Resolves (Some userId) \<Rightarrow>
          (case selectLike b of
             Rejects e \<Rightarrow> \<lparr>t_isLiked = False, t_error = Some (Thrown e)\<rparr>
           | Resolves (existingLike, checkError) \<Rightarrow>
               if (case checkError of None \<Rightarrow> False | Some ce \<Rightarrow> e_code ce \<noteq> ''PGRST116'')
               then \<lparr>t_isLiked = False, t_error = map_option Store checkError\<rparr>
               else
                 (case existingLike of
                    Some likeId \<Rightarrow>
                      (case deleteLike b of
                         Rejects e \<Rightarrow> \<lparr>t_isLiked = False, t_error = Some (Thrown e)\<rparr>
                       | Resolves (Some err) \<Rightarrow>
                           \<lparr>t_isLiked = True, t_error = Some (Store err)\<rparr>
                       | Resolves None \<Rightarrow> \<lparr>t_isLiked = False, t_error = None\<rparr>)
                  | None \<Rightarrow>
                      (case insertLike b of
                         Rejects e \<Rightarrow> \<lparr>t_isLiked = False, t_error = Some (Thrown e)\<rparr>
                       | Resolves (Some err) \<Rightarrow>
                           \<lparr>t_isLiked = False, t_error = Some (Store err)\<rparr>
                       | Resolves None \<Rightarrow> \<lparr>t_isLiked = True, t_error = None\<rparr>))))"

text \<open>The \<^verbatim>\<open>toggleLike\<close> action of \<^verbatim>\<open>context/postsContext.tsx\<close>: the transition it
  dispatches on the result of the gateway. \<^verbatim>\<open>if (error)\<close> tests the truthiness of the
  error, and \<^verbatim>\<open>error?.message || 'Failed to toggle like'\<close> reads the message of an
  error object; a string has none.\<close>

definition truthy_error :: "ServiceError \<Rightarrow> bool" where
  "truthy_error e =
     (case e of
        Message m \<Rightarrow> m \<noteq> []
      | Store se \<Rightarrow> True
      | Thrown (Exception m) \<Rightarrow> True
      | Thrown Falsy_Value \<Rightarrow> False)"

definition error_message :: "ServiceError \<Rightarrow> string \<Rightarrow> string" where
  "error_message e d =
     (case e of
        Message m \<Rightarrow> d
      | Store se \<Rightarrow> (if e_message se = [] then d else e_message se)
      | Thrown (Exception m) \<Rightarrow> (if m = [] then d else m)
      | Thrown Falsy_Value \<Rightarrow> d)"

definition toggleLikeAction :: "bool \<Rightarrow> Backend \<Rightarrow> string \<Rightarrow> PostsAction" where
  "toggleLikeAction isUser b postId =
     (if \<not> isUser then SET_ERROR (Some ''You must be logged in to like posts'')
      else (let r = toggleLike b postId;
                toggled = TOGGLE_LIKE postId (t_isLiked r) (if t_isLiked r then 1 else - 1)
            in case t_error r of
                 None \<Rightarrow> toggled
               | Some e \<Rightarrow>
                   if truthy_error e
                   then SET_ERROR (Some (error_message e ''Failed to toggle like''))
                   else toggled))"

section \<open>The moderation adapter of \<^verbatim>\<open>services/geminiValidationService.ts\<close>\<close>

text \<open>
  What one call of the generative model gives back: the call throws or rejects (network
  failure, timeout raised by the client), the text it returns makes \<^verbatim>\<open>JSON.parse\<close> (or the
  property read on its result) throw, or the text parses to an object.
  Strings are ASCII; a confidence is a rational number.
\<close>

datatype 'a ai_reply = AI_Fails | AI_Malformed | AI_Json 'a

record EcoJson =
  j_isEcoRelated :: "bool option"
  j_confidence :: "rat option"
  j_category :: "string option"
  j_reasoning :: "string option"

text \<open>The \<^verbatim>\<open>violations\<close> of a reply: an array of strings, or a truthy value that is not
  iterable (a number, an object), on which the spread \<^verbatim>\<open>...violations\<close> throws.\<close>

datatype Violations = Strings "string list" | Not_Iterable

record ModJson =
  k_isAppropriate :: "bool option"
  k_confidence :: "rat option"
  k_violations :: "Violations option"
  k_reasoning :: "string option"

datatype SuggJson = J_Array "string list" | J_Other

record Gemini =
  eco_reply :: "EcoJson ai_reply"
  mod_reply :: "ModJson ai_reply"
  sugg_reply :: "SuggJson ai_reply"

record EcoRelevanceResult =
  eco_isEcoRelated :: bool
  eco_confidence :: rat
  eco_category :: string
  eco_reasoning :: string

record ContentModerationResult =
  mod_isAppropriate :: bool
  mod_confidence :: rat
  mod_violations :: Violations
  mod_reasoning :: string

record ValidationResult =
  isValid :: bool
  isEcoRelated :: bool
  confidence :: rat
  reasons :: "string list"
  suggestions :: "string list option"
  category :: "string option"

text \<open>\<^verbatim>\<open>s.includes(k)\<close>, \<^verbatim>\<open>s.toLowerCase()\<close> on ASCII letters, and the interpolation
  \<^verbatim>\<open>${title}\<close> of an optional string, which prints a missing one as \<^verbatim>\<open>undefined\<close>.\<close>

fun str_includes :: "string \<Rightarrow> string \<Rightarrow> bool" where
  "str_includes [] k = (k = [])"
| "str_includes (c # cs) k = (take (length k) (c # cs) = k \<or> str_includes cs k)"

definition lower_char :: "char \<Rightarrow> char" where
  "lower_char c =
     (let n = (of_char c :: nat) in if 65 \<le> n \<and> n \<le> 90 then char_of (n + 32) else c)"

definition toLowerCase :: "string \<Rightarrow> string" where
  "toLowerCase s = map lower_char s"

definition interpolate :: "string option \<Rightarrow> string" where
  "interpolate s = (case s of None \<Rightarrow> ''undefined'' | Some t \<Rightarrow> t)"

definition fullText :: "string option \<Rightarrow> string \<Rightarrow> string" where
  "fullText title content = toLowerCase (interpolate title @ '' '' @ content)"

definition ecoKeywords :: "string list" where
  "ecoKeywords =
     [''environment'', ''eco'', ''green'', ''sustainable'', ''climate'', ''nature'',
      ''renewable'', ''recycl'', ''conservation'', ''organic'', ''solar'', ''waste'',
      ''carbon'', ''biodiversity'', ''pollution'', ''clean energy'', ''tree'', ''plant'']"

definition inappropriateKeywords :: "string list" where
  "inappropriateKeywords =
     [''hate'', ''kill'', ''die'', ''stupid'', ''idiot'', ''fuck'', ''shit'', ''damn'']"

definition hasEcoKeywords :: "string option \<Rightarrow> string \<Rightarrow> bool" where
  "hasEcoKeywords title content = list_ex (str_includes (fullText title content)) ecoKeywords"

definition hasInappropriate :: "string option \<Rightarrow> string \<Rightarrow> bool" where
  "hasInappropriate title content =
     list_ex (str_includes (fullText title content)) inappropriateKeywords"

text \<open>\<^verbatim>\<open>Math.max(0, Math.min(1, parsed.confidence || 0))\<close>.\<close>

definition clamp01 :: "rat option \<Rightarrow> rat" where
  "clamp01 c = max 0 (min 1 (case c of None \<Rightarrow> 0 | Some x \<Rightarrow> x))"

text \<open>The two checks catch every exception of their call and fall back to the keyword
  lists. The category and the image only enter the prompt.\<close>

definition checkEcoRelevance ::
  "EcoJson ai_reply \<Rightarrow> string \<Rightarrow> string option \<Rightarrow> string option \<Rightarrow> string option
     \<Rightarrow> EcoRelevanceResult" where
  "checkEcoRelevance reply content title cat imageUri =
     (case reply of
        AI_Json parsed \<Rightarrow>
          \<lparr>eco_isEcoRelated = (case j_isEcoRelated parsed of None \<Rightarrow> False | Some b \<Rightarrow> b),
           eco_confidence = clamp01 (j_confidence parsed),
           eco_category = str_or (j_category parsed) ''General'',
           eco_reasoning = str_or (j_reasoning parsed) ''No reasoning provided''\<rparr>
      | _ \<Rightarrow>
          \<lparr>eco_isEcoRelated = hasEcoKeywords title content,
           eco_confidence = (if hasEcoKeywords title content then 6 / 10 else 3 / 10),
           eco_category = (if hasEcoKeywords title content then ''General'' else ''Not Eco-Related''),
           eco_reasoning = ''Fallback keyword analysis due to API error''\<rparr>)"

definition checkContentModeration ::
  "ModJson ai_reply \<Rightarrow> string \<Rightarrow> string option \<Rightarrow> string option \<Rightarrow> ContentModerationResult" where
  "checkContentModeration reply content title imageUri =
     (case reply of
        AI_Json parsed \<Rightarrow>
          \<lparr>mod_isAppropriate = (case k_isAppropriate parsed of None \<Rightarrow> False | Some b \<Rightarrow> b),
           mod_confidence = clamp01 (k_confidence parsed),
           mod_violations = (case k_violations parsed of None \<Rightarrow> Strings [] | Some v \<Rightarrow> v),
           mod_reasoning = str_or (k_reasoning parsed) ''No reasoning provided''\<rparr>
      | _ \<Rightarrow>
          \<lparr>mod_isAppropriate = \<not> hasInappropriate title content,
           mod_confidence = 5 / 10,
           mod_violations = Strings (if hasInappropriate title content
                                     then [''Potentially inappropriate language detected'']
                                     else []),
           mod_reasoning = ''Fallback keyword analysis due to API error''\<rparr>)"

definition generateSuggestions :: "SuggJson ai_reply \<Rightarrow> string \<Rightarrow> string list \<Rightarrow> string list" where
  "generateSuggestions reply content rs =
     (case reply of
        AI_Json (J_Array l) \<Rightarrow> l
      | AI_Json J_Other \<Rightarrow> []
      | _ \<Rightarrow>
          [''Focus on environmental or sustainability topics'',
           ''Share positive eco-friendly experiences or tips'',
           ''Use respectful language that builds community''])"

text \<open>The \<^verbatim>\<open>try\<close> block of \<^verbatim>\<open>validatePostContent\<close>: \<open>None\<close> when an exception leaves it.\<close>

definition validate_try ::
  "Gemini \<Rightarrow> string \<Rightarrow> string option \<Rightarrow> string option \<Rightarrow> string option
     \<Rightarrow> ValidationResult option" where
  "validate_try g content title cat imageUri =
     (let ecoCheck = checkEcoRelevance (eco_reply g) content title cat imageUri;
          moderationCheck = checkContentModeration (mod_reply g) content title imageUri;
          valid = (eco_isEcoRelated ecoCheck \<and> mod_isAppropriate moderationCheck);
          reasons1 =
            (if \<not> eco_isEcoRelated ecoCheck
             then [''Content is not related to environment or sustainability (''
                     @ eco_reasoning ecoCheck @ '')'']
             else []);
          reasons2 =
            (if \<not> mod_isAppropriate moderationCheck
             then (case mod_violations moderationCheck of
                     Strings vs \<Rightarrow> Some (reasons1 @ vs)
                   | Not_Iterable \<Rightarrow> None)
             else Some reasons1)
      in case reasons2 of
           None \<Rightarrow> None
         | Some rs \<Rightarrow>
             Some \<lparr>isValid = valid,
                   isEcoRelated = eco_isEcoRelated ecoCheck,
                   confidence = min (eco_confidence ecoCheck) (mod_confidence moderationCheck),
                   reasons = rs,
                   suggestions =
                     (if valid then None else Some (generateSuggestions (sugg_reply g) content rs)),
                   category = Some (eco_category ecoCheck)\<rparr>)"

text \<open>The result of the \<^verbatim>\<open>catch\<close> block of \<^verbatim>\<open>validatePostContent\<close>.\<close>

definition permissive :: ValidationResult where
  "permissive =
     \<lparr>isValid = True, isEcoRelated = True, confidence = 1 / 10,
      reasons = [''Validation service temporarily unavailable''],
      suggestions = Some [''Please ensure your post is related to environmental sustainability''],
      category = None\<rparr>"

definition validatePostContent ::
  "Gemini \<Rightarrow> string \<Rightarrow> string option \<Rightarrow> string option \<Rightarrow> string option \<Rightarrow> ValidationResult" where
  "validatePostContent g content title cat imageUri =
     (case validate_try g content title cat imageUri of
        Some result \<Rightarrow> result
      | None \<Rightarrow> permissive)"

text \<open>The adapter is unavailable for a call when the call gives no parsed reply.\<close>

definition unavailable :: "'a ai_reply \<Rightarrow> bool" where
  "unavailable r = (case r of AI_Json x \<Rightarrow> False | _ \<Rightarrow> True)"

definition gemini_down :: Gemini where
  "gemini_down = \<lparr>eco_reply = AI_Fails, mod_reply = AI_Fails, sugg_reply = AI_Fails\<rparr>"

subsection \<open>Sample calls\<close>

definition demo_image :: ImagePickerAsset where
  "demo_image =
     \<lparr>a_uri = ''file:///tmp/tree.jpg'', a_width = 800, a_height = 600,
      a_fileSize = Some 120000, a_type = Some ''image''\<rparr>"

definition demo_submission :: "string option \<Rightarrow> CreatePostData" where
  "demo_submission text =
     \<lparr>d_title = None, d_content = text, d_category = Some ''Tree Planting'',
      d_image = Some demo_image\<rparr>"

text \<open>A signed-in user \<open>u1\<close>; the upload fails; the store accepts the insert of a post and
  finds no like of the user at the check, but rejects the insert of the like as a duplicate
  (the unique-violation code of the database).\<close>

definition duplicate_like :: StoreError where
  "duplicate_like =
     \<lparr>e_code = ''23505'',
      e_message = ''duplicate key value violates unique constraint''\<rparr>"

definition demo_backend :: Backend where
  "demo_backend =
     \<lparr>getUser = Resolves (Some ''u1''),
      uploadImage = Resolves \<lparr>up_success = False, up_url = None,
                              up_error = Some ''Blob upload failed''\<rparr>,
      insertPost = Resolves (Some ''p9'', None),
      selectPost = Resolves (Some (demo_post ''p9'' (Some 0) (Some 0)), None),
      selectLike = Resolves (None, Some \<lparr>e_code = ''PGRST116'', e_message = ''no rows''\<rparr>),
      deleteLike = Resolves None,
      insertLike = Resolves (Some duplicate_like)\<rparr>"

text \<open>The same, with the like of the user found at the check and its delete accepted.\<close>

definition unlike_backend :: Backend where
  "unlike_backend = demo_backend\<lparr>selectLike := Resolves (Some ''l1'', None)\<rparr>"

text \<open>The check of \<^verbatim>\<open>toggleLike\<close> found no row: no error, or the error of an empty
  result.\<close>

definition no_rows :: "StoreError option \<Rightarrow> bool" where
  "no_rows checkError = (case checkError of None \<Rightarrow> True | Some ce \<Rightarrow> e_code ce = ''PGRST116'')"

section \<open>Properties of the reducer\<close>

subsection \<open>The four synchronising transitions act post by post\<close>

lemma cur_list_map:
  "currentPost s' = map_option f (currentPost s) \<Longrightarrow> cur_list s' = map f (cur_list s)"
  by (simp add: cur_list_def split: option.splits)

lemma sync_posts:
  "sync_action a \<Longrightarrow> posts (postsReducer s a) = map (post_step s a) (posts s)"
  by (cases a) (simp_all add: sync_action_def post_step_def updatePosts_def toggleLikePosts_def
      incrementCommentCount_def decrementCommentCount_def)

lemma sync_userPosts:
  "sync_action a \<Longrightarrow> userPosts (postsReducer s a) = map (post_step s a) (userPosts s)"
  by (cases a) (simp_all add: sync_action_def post_step_def updatePosts_def toggleLikePosts_def
      incrementCommentCount_def decrementCommentCount_def)

lemma sync_cur:
  "sync_action a \<Longrightarrow> cur_list (postsReducer s a) = map (post_step s a) (cur_list s)"
  by (cases a) (simp_all add: sync_action_def post_step_def cur_list_map)

lemma sync_all_posts:
  "sync_action a \<Longrightarrow> all_posts (postsReducer s a) = map (post_step s a) (all_posts s)"
  by (simp add: all_posts_def sync_posts sync_userPosts sync_cur)







subsection \<open>Cross-view consistency\<close>




subsection \<open>Like counts\<close>

text \<open>
  Claim C2 does not hold of the code. The \<^verbatim>\<open>toggleLike\<close> action dispatches
  \<^verbatim>\<open>TOGGLE_LIKE\<close> with delta \<open>-1\<close> when the gateway removed an existing like, and the
  reducer adds the delta with no floor: a post shown with \<^verbatim>\<open>like_count\<close> 0 ends with
  \<open>-1\<close> in the feed, the user feed and the current-post slot, where the sibling
  \<^verbatim>\<open>DELETE_COMMENT\<close> floors its decrement at zero.
\<close>

theorem TOGGLE_LIKE_unlike_at_zero:
  "toggleLikeAction True unlike_backend ''A'' = TOGGLE_LIKE ''A'' False (- 1)
   \<and> map like_count
       (all_posts (postsReducer
          (demo_state [demo_post ''A'' (Some 0) None] [demo_post ''A'' (Some 0) None]
             (Some (demo_post ''A'' (Some 0) None)) [])
          (TOGGLE_LIKE ''A'' False (- 1))))
      = [Some (- 1), Some (- 1), Some (- 1)]"
  by (simp add: toggleLikeAction_def toggleLike_def unlike_backend_def demo_backend_def
      all_posts_def cur_list_def demo_state_def demo_post_def toggleLikePosts_def toggleLike1_def
      or0_def js_add_def round53_def)














subsection \<open>Comment counts\<close>

lemma delete_all_posts:
  "all_posts (postsReducer s (DELETE_COMMENT i))
     = map (decrementCommentCount1 (comments s) i) (all_posts s)"
  using sync_all_posts [of "DELETE_COMMENT i" s] by (simp add: sync_action_def post_step_def)

lemma decrement_floor: "min 0 (count_of p) \<le> count_of (decrementCommentCount1 cs i p)"
  by (auto simp: decrementCommentCount1_def count_of_def or0_def split: option.splits)

lemma list_all2_map_self: "(\<And>x. R x (f x)) \<Longrightarrow> list_all2 R xs (map f xs)"
  by (simp add: list_all2_conv_all_nth)

lemma floor_step:
  "list_all2 (\<lambda>p p'. min 0 (count_of p) \<le> count_of p') (all_posts s)
     (all_posts (postsReducer s (DELETE_COMMENT i)))"
  unfolding delete_all_posts by (rule list_all2_map_self) (rule decrement_floor)

lemma floor_run:
  "list_all2 (\<lambda>p p'. min 0 (count_of p) \<le> count_of p') (all_posts s)
     (all_posts (deleteAll s ids))"
proof (induction ids arbitrary: s)
  case Nil
  show ?case by (simp add: deleteAll_def run_def list_all2_conv_all_nth)
next
  case (Cons i ids)
  have step: "deleteAll s (i # ids) = deleteAll (postsReducer s (DELETE_COMMENT i)) ids"
    by (simp add: deleteAll_def run_def)
  have tr: "\<And>a b c. min 0 (count_of a) \<le> count_of b \<Longrightarrow> min 0 (count_of b) \<le> count_of c
      \<Longrightarrow> min 0 (count_of a) \<le> count_of c"
    by linarith
  show ?case
    unfolding step
    by (rule list_all2_trans [OF tr floor_step Cons.IH])
qed

lemma nonneg_run: "counts_nonneg s \<Longrightarrow> counts_nonneg (deleteAll s ids)"
  using floor_run [of s ids]
  by (fastforce simp: counts_nonneg_def list_all2_conv_all_nth list_all_length)

lemma find_absent: "i \<notin> c_id ` set cs \<Longrightarrow> find (\<lambda>c. c_id c = i) cs = None"
  by (auto simp: find_None_iff)

lemma filter_absent: "i \<notin> c_id ` set cs \<Longrightarrow> filter (\<lambda>c. c_id c \<noteq> i) cs = cs"
  by (auto simp: filter_id_conv)

lemma decrement_absent: "i \<notin> c_id ` set cs \<Longrightarrow> decrementCommentCount1 cs i = (\<lambda>p. p)"
  by (simp add: decrementCommentCount1_def find_absent fun_eq_iff)

lemma delete_absent: "i \<notin> c_id ` set (comments s) \<Longrightarrow> postsReducer s (DELETE_COMMENT i) = s"
  by (simp add: decrementCommentCount_def decrement_absent filter_absent option.map_ident)

lemma delete_removes: "i \<notin> c_id ` set (comments (postsReducer s (DELETE_COMMENT i)))"
  by auto

lemma delete_twice:
  "postsReducer (postsReducer s (DELETE_COMMENT i)) (DELETE_COMMENT i)
     = postsReducer s (DELETE_COMMENT i)"
  by (rule delete_absent [OF delete_removes])

text \<open>
  Claim C5: for every snapshot and every sequence of \<^verbatim>\<open>DELETE_COMMENT\<close> transitions, in any
  order and with any repetition, no comment count of the feed, the user feed or the
  current-post slot goes below zero: a snapshot with no negative count keeps none, and in
  any snapshot no count ends below the smaller of zero and its value before. The transition
  decrements, floored at zero, the count of the posts of the comment it finds in the thread;
  deleting an identifier absent from the thread leaves the snapshot, and so every count,
  unchanged, and so does deleting an identifier a second time.
\<close>

theorem DELETE_COMMENT_floor:
  "(counts_nonneg s \<longrightarrow> counts_nonneg (deleteAll s ids))
   \<and> list_all2 (\<lambda>p p'. min 0 (count_of p) \<le> count_of p') (all_posts s)
        (all_posts (deleteAll s ids))
   \<and> all_posts (postsReducer s (DELETE_COMMENT i)) =
        map (decrementCommentCount1 (comments s) i) (all_posts s)
   \<and> (\<forall>d. find (\<lambda>c. c_id c = i) (comments s) = Some d \<and> p_id p = c_post_id d \<longrightarrow>
         comment_count (decrementCommentCount1 (comments s) i p)
           = Some (max (count_of p - 1) 0))
   \<and> (i \<notin> c_id ` set (comments s) \<longrightarrow> postsReducer s (DELETE_COMMENT i) = s)
   \<and> postsReducer (postsReducer s (DELETE_COMMENT i)) (DELETE_COMMENT i)
        = postsReducer s (DELETE_COMMENT i)"
  using nonneg_run [of s ids] floor_run [of s ids] delete_all_posts [of s i]
    delete_absent [of i s] delete_twice [of s i]
  by (simp add: decrementCommentCount1_def count_of_def)

theorem DELETE_COMMENT_floor_witness:
  "counts_nonneg (demo_state [demo_post ''A'' (Some 0) (Some 0)] [demo_post ''A'' (Some 0) (Some 0)]
                    None [demo_comment ''c1'' ''A''])
   \<and> counts_nonneg
        (deleteAll (demo_state [demo_post ''A'' (Some 0) (Some 0)]
                      [demo_post ''A'' (Some 0) (Some 0)] None [demo_comment ''c1'' ''A''])
           [''c1'', ''c1'', ''c1''])
   \<and> comment_count (decrementCommentCount1 [demo_comment ''c1'' ''A''] ''c1''
                       (demo_post ''A'' (Some 0) (Some 0))) = Some 0
   \<and> postsReducer (demo_state [demo_post ''A'' (Some 0) (Some 0)]
                      [demo_post ''A'' (Some 0) (Some 0)] None [demo_comment ''c1'' ''A''])
        (DELETE_COMMENT ''zz'')
      = demo_state [demo_post ''A'' (Some 0) (Some 0)] [demo_post ''A'' (Some 0) (Some 0)]
          None [demo_comment ''c1'' ''A'']"
proof -
  have a: "counts_nonneg (demo_state [demo_post ''A'' (Some 0) (Some 0)]
             [demo_post ''A'' (Some 0) (Some 0)] None [demo_comment ''c1'' ''A''])"
    by (simp add: counts_nonneg_def all_posts_def cur_list_def demo_state_def demo_post_def
        count_of_def or0_def)
  have b: "''zz'' \<notin> c_id ` set (comments (demo_state [demo_post ''A'' (Some 0) (Some 0)]
             [demo_post ''A'' (Some 0) (Some 0)] None [demo_comment ''c1'' ''A'']))"
    by (simp add: demo_state_def demo_comment_def)
  have c: "find (\<lambda>c. c_id c = ''c1'') (comments (demo_state [demo_post ''A'' (Some 0) (Some 0)]
             [demo_post ''A'' (Some 0) (Some 0)] None [demo_comment ''c1'' ''A'']))
           = Some (demo_comment ''c1'' ''A'')
           \<and> p_id (demo_post ''A'' (Some 0) (Some 0)) = c_post_id (demo_comment ''c1'' ''A'')"
    by (simp add: demo_state_def demo_comment_def demo_post_def)
  have d: "comments (demo_state [demo_post ''A'' (Some 0) (Some 0)]
             [demo_post ''A'' (Some 0) (Some 0)] None [demo_comment ''c1'' ''A''])
           = [demo_comment ''c1'' ''A'']"
    by (simp add: demo_state_def)
  have e: "max (count_of (demo_post ''A'' (Some 0) (Some 0)) - 1) 0 = 0"
    by (simp add: count_of_def or0_def demo_post_def)
  show ?thesis
    using a b c
      DELETE_COMMENT_floor [of "demo_state [demo_post ''A'' (Some 0) (Some 0)]
        [demo_post ''A'' (Some 0) (Some 0)] None [demo_comment ''c1'' ''A'']"
        "[''c1'', ''c1'', ''c1'']" "''zz''" "demo_post ''A'' (Some 0) (Some 0)"]
      DELETE_COMMENT_floor [of "demo_state [demo_post ''A'' (Some 0) (Some 0)]
        [demo_post ''A'' (Some 0) (Some 0)] None [demo_comment ''c1'' ''A'']"
        "[]" "''c1''" "demo_post ''A'' (Some 0) (Some 0)"]
    unfolding d e by blast
qed

subsection \<open>The current post and its comment thread\<close>

text \<open>
  Claim C8, as stated, fails in its parenthesis: with no current post set the transition is
  not a no-op on the comment thread when the thread is not empty. In the snapshot reached
  by deleting the currently viewed post, the current post is \<^verbatim>\<open>null\<close>, the thread holds a
  comment, and \<^verbatim>\<open>CLEAR_CURRENT_POST\<close> empties it.
\<close>

theorem CLEAR_CURRENT_POST_stale_thread_counterexample:
  "currentPost stale_state = None
   \<and> comments stale_state = [demo_comment ''c1'' ''A'']
   \<and> comments (postsReducer stale_state CLEAR_CURRENT_POST) \<noteq> comments stale_state"
  by (simp add: stale_state_def run_def initialState_def demo_post_def)

lemma clear_identity_iff:
  "postsReducer s CLEAR_CURRENT_POST = s \<longleftrightarrow> currentPost s = None \<and> comments s = []"
proof
  assume e: "postsReducer s CLEAR_CURRENT_POST = s"
  have "currentPost (postsReducer s CLEAR_CURRENT_POST) = None"
    and "comments (postsReducer s CLEAR_CURRENT_POST) = []"
    by simp_all
  then show "currentPost s = None \<and> comments s = []"
    unfolding e by simp
next
  assume "currentPost s = None \<and> comments s = []"
  then show "postsReducer s CLEAR_CURRENT_POST = s"
    by (cases s) simp
qed

text \<open>
  Claim C8, amended: for every snapshot, \<^verbatim>\<open>CLEAR_CURRENT_POST\<close> sets the current-post slot
  to \<^verbatim>\<open>null\<close> and the comment thread to the empty list and changes nothing else, also
  when no current post is set; in that case it leaves the slot as it is, and it is a no-op
  exactly when the thread is empty already (a thread left beside a \<^verbatim>\<open>null\<close> current post
  is emptied); applied twice it yields the same snapshot as applied once.
\<close>

theorem CLEAR_CURRENT_POST_clears:
  "currentPost (postsReducer s CLEAR_CURRENT_POST) = None
   \<and> comments (postsReducer s CLEAR_CURRENT_POST) = []
   \<and> postsReducer s CLEAR_CURRENT_POST = s\<lparr>currentPost := None, comments := []\<rparr>
   \<and> postsReducer (s\<lparr>currentPost := None\<rparr>) CLEAR_CURRENT_POST
        = s\<lparr>currentPost := None, comments := []\<rparr>
   \<and> postsReducer (s\<lparr>currentPost := None, comments := []\<rparr>) CLEAR_CURRENT_POST
        = s\<lparr>currentPost := None, comments := []\<rparr>
   \<and> postsReducer (postsReducer s CLEAR_CURRENT_POST) CLEAR_CURRENT_POST
        = postsReducer s CLEAR_CURRENT_POST
   \<and> (currentPost s = None \<longrightarrow>
        currentPost (postsReducer s CLEAR_CURRENT_POST) = currentPost s
        \<and> (postsReducer s CLEAR_CURRENT_POST = s \<longleftrightarrow> comments s = []))"
  using clear_identity_iff [of s] by simp

theorem CLEAR_CURRENT_POST_clears_witness:
  "postsReducer (demo_state [] [] None []) CLEAR_CURRENT_POST = demo_state [] [] None []
   \<and> postsReducer (demo_state [] [] None [demo_comment ''c1'' ''A'']) CLEAR_CURRENT_POST
        \<noteq> demo_state [] [] None [demo_comment ''c1'' ''A'']"
proof -
  have a: "currentPost (demo_state [] [] None []) = None"
    and b: "comments (demo_state [] [] None []) = []"
    and c: "currentPost (demo_state [] [] None [demo_comment ''c1'' ''A'']) = None"
    and d: "comments (demo_state [] [] None [demo_comment ''c1'' ''A'']) \<noteq> []"
    by (simp_all add: demo_state_def)
  show ?thesis
    using a b c d
      CLEAR_CURRENT_POST_clears [of "demo_state [] [] None []"]
      CLEAR_CURRENT_POST_clears [of "demo_state [] [] None [demo_comment ''c1'' ''A'']"]
    by blast
qed

text \<open>
  Claim C9, as stated, fails in its last part: the stale thread left by deleting the
  currently viewed post is also emptied by \<^verbatim>\<open>DELETE_COMMENT\<close>, once it removes the last
  comment of the thread.
\<close>

theorem stale_thread_DELETE_COMMENT_counterexample:
  "currentPost stale_state = None \<and> comments stale_state \<noteq> []
   \<and> comments (postsReducer stale_state (DELETE_COMMENT ''c1'')) = []"
  by (simp add: stale_state_def run_def initialState_def demo_post_def demo_comment_def)

lemma empties_iff:
  "comments s \<noteq> [] \<Longrightarrow>
     comments (postsReducer s a) = [] \<longleftrightarrow>
       a = CLEAR_CURRENT_POST \<or> a = SET_COMMENTS []
       \<or> (\<exists>j. a = DELETE_COMMENT j \<and> (\<forall>c\<in>set (comments s). c_id c = j))"
  by (cases a) (auto simp: filter_empty_conv)

text \<open>
  Claim C9, amended: for every snapshot and post identifier, \<^verbatim>\<open>DELETE_POST\<close> leaves the
  comments field unchanged, even when it clears a matching current-post slot, so a snapshot
  with a \<^verbatim>\<open>null\<close> current post and a non-empty comment thread is reachable by deleting the
  currently viewed post; a later transition empties a non-empty thread exactly when it is
  \<^verbatim>\<open>CLEAR_CURRENT_POST\<close>, \<^verbatim>\<open>SET_COMMENTS\<close> with an empty list, or a \<^verbatim>\<open>DELETE_COMMENT\<close> of
  the identifier that every comment left in the thread carries.
\<close>

theorem DELETE_POST_keeps_comments:
  "comments (postsReducer s (DELETE_POST i)) = comments s
   \<and> currentPost stale_state = None \<and> comments stale_state = [demo_comment ''c1'' ''A'']
   \<and> (comments s \<noteq> [] \<longrightarrow>
        (comments (postsReducer s a) = [] \<longleftrightarrow>
           a = CLEAR_CURRENT_POST \<or> a = SET_COMMENTS []
           \<or> (\<exists>j. a = DELETE_COMMENT j \<and> (\<forall>c\<in>set (comments s). c_id c = j))))"
  using empties_iff [of s a]
  by (simp add: stale_state_def run_def initialState_def demo_post_def)

theorem DELETE_POST_keeps_comments_witness:
  "comments (postsReducer (demo_state [] [] (Some (demo_post ''A'' (Some 0) (Some 1)))
                             [demo_comment ''c1'' ''A'']) (DELETE_POST ''A''))
     = [demo_comment ''c1'' ''A'']
   \<and> comments (postsReducer (demo_state [] [] None [demo_comment ''c1'' ''A''])
                  CLEAR_CURRENT_POST) = []
   \<and> comments (postsReducer (demo_state [] [] None [demo_comment ''c1'' ''A''])
                  (ADD_POST (demo_post ''B'' None None))) \<noteq> []"
proof -
  have n: "comments (demo_state [] [] None [demo_comment ''c1'' ''A'']) \<noteq> []"
    by (simp add: demo_state_def)
  show ?thesis
    using n
      DELETE_POST_keeps_comments [of "demo_state [] [] (Some (demo_post ''A'' (Some 0) (Some 1)))
        [demo_comment ''c1'' ''A'']" "''A''" CLEAR_CURRENT_POST]
      DELETE_POST_keeps_comments [of "demo_state [] [] None [demo_comment ''c1'' ''A'']" "''A''"
        CLEAR_CURRENT_POST]
      DELETE_POST_keeps_comments [of "demo_state [] [] None [demo_comment ''c1'' ''A'']" "''A''"
        "ADD_POST (demo_post ''B'' None None)"]
    by (simp add: demo_state_def)
qed

text \<open>
  Claim C10: for every snapshot and comment, \<^verbatim>\<open>ADD_COMMENT\<close> appends the comment to the
  thread whatever the current-post slot holds (nothing, or a post with another identifier),
  and adds one to \<^verbatim>\<open>comment_count\<close> on exactly the posts of the feed, the user feed and
  the current-post slot whose identifier is the comment's \<^verbatim>\<open>post_id\<close>; with a current
  post of another identifier the slot is unchanged and the thread still gains the comment.
\<close>

theorem ADD_COMMENT_appends:
  "comments (postsReducer s (ADD_COMMENT c)) = comments s @ [c]
   \<and> comments (postsReducer (s\<lparr>currentPost := None\<rparr>) (ADD_COMMENT c)) = comments s @ [c]
   \<and> posts (postsReducer s (ADD_COMMENT c)) =
       map (\<lambda>p. if p_id p = c_post_id c
                then p\<lparr>comment_count := Some (or0 (comment_count p) + 1)\<rparr> else p) (posts s)
   \<and> userPosts (postsReducer s (ADD_COMMENT c)) =
       map (\<lambda>p. if p_id p = c_post_id c
                then p\<lparr>comment_count := Some (or0 (comment_count p) + 1)\<rparr> else p)
         (userPosts s)
   \<and> currentPost (postsReducer s (ADD_COMMENT c)) =
       map_option (\<lambda>p. if p_id p = c_post_id c
                then p\<lparr>comment_count := Some (or0 (comment_count p) + 1)\<rparr> else p)
         (currentPost s)
   \<and> (\<forall>cp. currentPost s = Some cp \<and> p_id cp \<noteq> c_post_id c \<longrightarrow>
         currentPost (postsReducer s (ADD_COMMENT c)) = Some cp
         \<and> c \<in> set (comments (postsReducer s (ADD_COMMENT c))))"
  by (auto simp: incrementCommentCount_def incrementCommentCount1_def fun_eq_iff
      intro!: arg_cong2 [where f = map] arg_cong2 [where f = map_option])

theorem ADD_COMMENT_appends_witness:
  "currentPost (postsReducer (demo_state [demo_post ''B'' None (Some 2)] [] 
                   (Some (demo_post ''A'' None (Some 7))) [])
                  (ADD_COMMENT (demo_comment ''c5'' ''B'')))
     = Some (demo_post ''A'' None (Some 7))
   \<and> comments (postsReducer (demo_state [demo_post ''B'' None (Some 2)] []
                   (Some (demo_post ''A'' None (Some 7))) [])
                  (ADD_COMMENT (demo_comment ''c5'' ''B'')))
     = [demo_comment ''c5'' ''B'']
   \<and> map comment_count (posts (postsReducer (demo_state [demo_post ''B'' None (Some 2)] []
                   (Some (demo_post ''A'' None (Some 7))) [])
                  (ADD_COMMENT (demo_comment ''c5'' ''B'')))) = [Some 3]"
proof -
  have h: "currentPost (demo_state [demo_post ''B'' None (Some 2)] []
                   (Some (demo_post ''A'' None (Some 7))) []) = Some (demo_post ''A'' None (Some 7))
           \<and> p_id (demo_post ''A'' None (Some 7)) \<noteq> c_post_id (demo_comment ''c5'' ''B'')"
    by (simp add: demo_state_def demo_post_def demo_comment_def)
  show ?thesis
    using h ADD_COMMENT_appends [of "demo_state [demo_post ''B'' None (Some 2)] []
                   (Some (demo_post ''A'' None (Some 7))) []" "demo_comment ''c5'' ''B''"]
    by (simp add: demo_state_def demo_post_def demo_comment_def or0_def)
qed

section \<open>Properties of the gateway\<close>

text \<open>
  Claim C3, as stated, fails: a submission with text and an image whose upload fails is
  not aborted. \<^verbatim>\<open>uploadPostImage\<close> returns \<^verbatim>\<open>null\<close>, the content check passes on the
  text, and the row is inserted with \<^verbatim>\<open>image_url\<close> \<^verbatim>\<open>null\<close>; the call succeeds.
\<close>

theorem createPost_upload_failure_counterexample:
  "d_image (demo_submission (Some ''Planted 3 trees today'')) = Some demo_image
   \<and> uploadPostImage (uploadImage demo_backend) demo_image ''u1'' = None
   \<and> createPost demo_backend (demo_submission (Some ''Planted 3 trees today'')) [] =
       (\<lparr>r_data = Some (demo_post ''p9'' (Some 0) (Some 0)), r_error = None\<rparr>,
        [\<lparr>i_user_id = ''u1'', i_title = None, i_content = Some ''Planted 3 trees today'',
          i_image_url = None, i_category = ''Tree Planting''\<rparr>])"
  by (simp add: createPost_def uploadPostImage_def demo_backend_def demo_submission_def
      truthy_def or_null_def str_or_def)

text \<open>
  Claim C3, amended: for every \<^verbatim>\<open>createPost\<close> call of a signed-in user whose input
  includes an image asset, if the upload of the image fails, then a submission without text
  content is aborted with the error "Post must have either content or an image" and no row
  is inserted, and a submission with text content is sent to the store as a post without
  an image (\<^verbatim>\<open>image_url\<close> \<^verbatim>\<open>null\<close>), which the table gains when the store accepts it.
\<close>

theorem createPost_upload_failure:
  assumes "getUser b = Resolves (Some userId)"
    and "d_image postData = Some img"
    and "uploadPostImage (uploadImage b) img userId = None"
  shows "(\<not> truthy (d_content postData) \<longrightarrow>
            createPost b postData table =
              (\<lparr>r_data = None,
                r_error = Some (Message ''Post must have either content or an image'')\<rparr>,
               table))
         \<and> (truthy (d_content postData) \<and> insertPost b = Resolves (insertData, None) \<longrightarrow>
            snd (createPost b postData table) =
              table @ [\<lparr>i_user_id = userId, i_title = or_null (d_title postData),
                         i_content = d_content postData, i_image_url = None,
                         i_category = str_or (d_category postData) ''General''\<rparr>])"
  using assms
  by (auto simp: createPost_def Let_def truthy_def or_null_def
      split: reply.splits option.splits prod.splits)

theorem createPost_upload_failure_witness:
  "createPost demo_backend (demo_submission None) [] =
     (\<lparr>r_data = None, r_error = Some (Message ''Post must have either content or an image'')\<rparr>,
      [])
   \<and> snd (createPost demo_backend (demo_submission (Some ''Planted 3 trees today'')) []) =
       [\<lparr>i_user_id = ''u1'', i_title = None, i_content = Some ''Planted 3 trees today'',
         i_image_url = None, i_category = ''Tree Planting''\<rparr>]"
proof -
  have u: "getUser demo_backend = Resolves (Some ''u1'')"
    by (simp add: demo_backend_def)
  have f: "uploadPostImage (uploadImage demo_backend) demo_image ''u1'' = None"
    by (simp add: uploadPostImage_def demo_backend_def)
  have i: "insertPost demo_backend = Resolves (Some ''p9'', None)"
    by (simp add: demo_backend_def)
  have a: "d_image (demo_submission None) = Some demo_image"
    and b: "d_image (demo_submission (Some ''Planted 3 trees today'')) = Some demo_image"
    by (simp_all add: demo_submission_def)
  show ?thesis
    using createPost_upload_failure [OF u a f, of "[]"]
      createPost_upload_failure [OF u b f, of "[]" "Some ''p9''"] i
    by (simp add: demo_submission_def truthy_def or_null_def str_or_def)
qed

text \<open>
  Claim C4, as stated, fails: when the check finds no like and the store rejects the insert
  as a duplicate, \<^verbatim>\<open>toggleLike\<close> returns \<^verbatim>\<open>isLiked\<close> false together with the error of
  the store.
\<close>

theorem toggleLike_duplicate_counterexample:
  "toggleLike demo_backend ''A'' = \<lparr>t_isLiked = False, t_error = Some (Store duplicate_like)\<rparr>"
  by (simp add: toggleLike_def demo_backend_def)

text \<open>
  Claim C4, amended: when \<^verbatim>\<open>toggleLike\<close> of a signed-in user finds no existing like and
  the store rejects the following insert with an error, a uniqueness violation like any
  other, the result of the gateway reports not liked and carries that error, and the
  \<^verbatim>\<open>toggleLike\<close> action dispatches \<^verbatim>\<open>SET_ERROR\<close> with its message, not \<^verbatim>\<open>TOGGLE_LIKE\<close>.
\<close>

theorem toggleLike_insert_rejected:
  assumes "getUser b = Resolves (Some userId)"
    and "selectLike b = Resolves (None, checkError)"
    and "no_rows checkError"
    and "insertLike b = Resolves (Some err)"
  shows "toggleLike b postId = \<lparr>t_isLiked = False, t_error = Some (Store err)\<rparr>
         \<and> toggleLikeAction True b postId =
             SET_ERROR (Some (error_message (Store err) ''Failed to toggle like''))"
  using assms
  by (auto simp: toggleLike_def toggleLikeAction_def truthy_error_def no_rows_def
      split: option.splits)

theorem toggleLike_insert_rejected_witness:
  "t_isLiked (toggleLike demo_backend ''A'') = False
   \<and> t_error (toggleLike demo_backend ''A'') = Some (Store duplicate_like)
   \<and> toggleLikeAction True demo_backend ''A'' =
       SET_ERROR (Some ''duplicate key value violates unique constraint'')"
proof -
  have u: "getUser demo_backend = Resolves (Some ''u1'')"
    and s: "selectLike demo_backend
             = Resolves (None, Some \<lparr>e_code = ''PGRST116'', e_message = ''no rows''\<rparr>)"
    and i: "insertLike demo_backend = Resolves (Some duplicate_like)"
    by (simp_all add: demo_backend_def)
  have n: "no_rows (Some \<lparr>e_code = ''PGRST116'', e_message = ''no rows''\<rparr>)"
    by (simp add: no_rows_def)
  show ?thesis
    using toggleLike_insert_rejected [OF u s n i, of "''A''"]
    by (simp add: error_message_def duplicate_like_def)
qed

section \<open>Properties of the moderation adapter\<close>

text \<open>
  Claim C7, as stated, fails: with every call of the model failing, the two checks fall
  back to their keyword lists, and a text with no eco keyword ("Hello world") is rejected.
\<close>

theorem validatePostContent_unavailable_counterexample:
  "unavailable (eco_reply gemini_down) \<and> unavailable (mod_reply gemini_down)
   \<and> unavailable (sugg_reply gemini_down)
   \<and> isValid (validatePostContent gemini_down ''Hello world'' None None None) = False"
  by (simp add: validatePostContent_def validate_try_def checkEcoRelevance_def
      checkContentModeration_def gemini_down_def unavailable_def Let_def
      hasEcoKeywords_def fullText_def toLowerCase_def lower_char_def interpolate_def
      ecoKeywords_def)

lemma validate_try_unavailable:
  assumes "unavailable (eco_reply g)" "unavailable (mod_reply g)"
  shows "\<exists>r. validate_try g content title cat imageUri = Some r
            \<and> isValid r = (hasEcoKeywords title content \<and> \<not> hasInappropriate title content)
            \<and> confidence r = (if hasEcoKeywords title content then 5 / 10 else 3 / 10)"
  using assms
  by (cases "eco_reply g"; cases "mod_reply g")
    (simp_all add: unavailable_def validate_try_def checkEcoRelevance_def
      checkContentModeration_def Let_def)

lemma validate_try_None_iff:
  "validate_try g content title cat imageUri = None \<longleftrightarrow>
     \<not> mod_isAppropriate (checkContentModeration (mod_reply g) content title imageUri)
     \<and> mod_violations (checkContentModeration (mod_reply g) content title imageUri)
         = Not_Iterable"
  by (simp add: validate_try_def Let_def split: Violations.splits)

lemma validate_try_category:
  "validate_try g content title cat imageUri = Some r \<Longrightarrow> category r \<noteq> None"
  by (auto simp: validate_try_def Let_def split: if_splits Violations.splits)

lemma permissive_iff:
  "validatePostContent g content title cat imageUri = permissive \<longleftrightarrow>
     validate_try g content title cat imageUri = None"
proof (cases "validate_try g content title cat imageUri")
  case None
  then show ?thesis by (simp add: validatePostContent_def)
next
  case (Some r)
  have "category permissive = None"
    by (simp add: permissive_def)
  with validate_try_category [OF Some] have "r \<noteq> permissive"
    by auto
  with Some show ?thesis by (simp add: validatePostContent_def)
qed

text \<open>
  Claim C7, amended: when the calls of the model for the two checks fail or return text
  that does not parse, \<^verbatim>\<open>validatePostContent\<close> decides by the keyword fallbacks: it approves
  exactly when the lower-cased title and content contain an eco keyword and no inappropriate
  keyword, with confidence 0.5 when an eco keyword is found and 0.3 otherwise, and its
  result is never the approving result of its \<^verbatim>\<open>catch\<close> block (confidence 0.1). That
  result is returned exactly when an exception leaves its own \<^verbatim>\<open>try\<close> block, which is
  when the moderation check does not find the content appropriate and its violations are
  a value that cannot be spread.
\<close>

theorem validatePostContent_unavailable:
  "(unavailable (eco_reply g) \<and> unavailable (mod_reply g) \<longrightarrow>
      isValid (validatePostContent g content title cat imageUri) =
        (hasEcoKeywords title content \<and> \<not> hasInappropriate title content)
      \<and> confidence (validatePostContent g content title cat imageUri) =
          (if hasEcoKeywords title content then 5 / 10 else 3 / 10)
      \<and> validatePostContent g content title cat imageUri \<noteq> permissive)
   \<and> (validatePostContent g content title cat imageUri = permissive \<longleftrightarrow>
        validate_try g content title cat imageUri = None)
   \<and> (validate_try g content title cat imageUri = None \<longleftrightarrow>
        \<not> mod_isAppropriate (checkContentModeration (mod_reply g) content title imageUri)
        \<and> mod_violations (checkContentModeration (mod_reply g) content title imageUri)
            = Not_Iterable)
   \<and> isValid permissive \<and> confidence permissive = 1 / 10"
proof -
  have 1: "isValid (validatePostContent g content title cat imageUri) =
        (hasEcoKeywords title content \<and> \<not> hasInappropriate title content)
      \<and> confidence (validatePostContent g content title cat imageUri) =
          (if hasEcoKeywords title content then 5 / 10 else 3 / 10)
      \<and> validatePostContent g content title cat imageUri \<noteq> permissive"
    if u: "unavailable (eco_reply g) \<and> unavailable (mod_reply g)"
  proof -
    from u validate_try_unavailable [of g content title cat imageUri]
    obtain r where r: "validate_try g content title cat imageUri = Some r"
      and v: "isValid r = (hasEcoKeywords title content \<and> \<not> hasInappropriate title content)"
      and c: "confidence r = (if hasEcoKeywords title content then 5 / 10 else 3 / 10)"
      by blast
    from r have "validatePostContent g content title cat imageUri \<noteq> permissive"
      by (simp add: permissive_iff)
    with r v c show ?thesis
      by (simp add: validatePostContent_def)
  qed
  have 2: "isValid permissive \<and> confidence permissive = 1 / 10"
    by (simp add: permissive_def)
  show ?thesis
    using 1 2 permissive_iff [of g content title cat imageUri]
      validate_try_None_iff [of g content title cat imageUri]
    by blast
qed

theorem validatePostContent_unavailable_witness:
  "isValid (validatePostContent gemini_down ''Planted 3 trees today'' None None None)
   \<and> confidence (validatePostContent gemini_down ''Planted 3 trees today'' None None None) = 1 / 2
   \<and> validatePostContent
        (gemini_down\<lparr>mod_reply := AI_Json \<lparr>k_isAppropriate = None, k_confidence = None,
                                            k_violations = Some Not_Iterable,
                                            k_reasoning = None\<rparr>\<rparr>)
        ''Hello world'' None None None = permissive"
proof -
  have e: "hasEcoKeywords None ''Planted 3 trees today''"
    by (simp add: hasEcoKeywords_def fullText_def toLowerCase_def lower_char_def interpolate_def
        ecoKeywords_def)
  have i: "\<not> hasInappropriate None ''Planted 3 trees today''"
    by (simp add: hasInappropriate_def fullText_def toLowerCase_def lower_char_def
        interpolate_def inappropriateKeywords_def)
  have d: "unavailable (eco_reply gemini_down) \<and> unavailable (mod_reply gemini_down)"
    by (simp add: gemini_down_def unavailable_def)
  have n: "validate_try
        (gemini_down\<lparr>mod_reply := AI_Json \<lparr>k_isAppropriate = None, k_confidence = None,
                                            k_violations = Some Not_Iterable,
                                            k_reasoning = None\<rparr>\<rparr>)
        ''Hello world'' None None None = None"
    by (simp add: validate_try_def checkContentModeration_def gemini_down_def Let_def)
  show ?thesis
    using validatePostContent_unavailable [of gemini_down "''Planted 3 trees today''" None None None]
      validatePostContent_unavailable
        [of "gemini_down\<lparr>mod_reply := AI_Json \<lparr>k_isAppropriate = None, k_confidence = None,
                                            k_violations = Some Not_Iterable,
                                            k_reasoning = None\<rparr>\<rparr>"
            "''Hello world''" None None None]
      e i d n
    by simp
qed

end
